theory Spec2Isabelle
  imports Main "HOL-Library.Multiset" "HOL-Library.Sublist"
begin

section \<open>Data model of \<^verbatim>\<open>src/utils/patterns.ts\<close>\<close>

text \<open>
  Source text is a sequence of code units, modelled as \<^typ>\<open>string\<close>; the model covers
  code units below 256. Offsets and line numbers are natural numbers.
\<close>

datatype Severity = Critical | Warning | Info

datatype Language = javascript | typescript | python | go | rust | java | cpp

text \<open>
  The interface \<^verbatim>\<open>Issue\<close>. The fields \<^verbatim>\<open>id\<close>, \<^verbatim>\<open>type\<close> and \<^verbatim>\<open>fix\<close> are called
  \<open>issue_id\<close>, \<open>issue_type\<close> and \<open>issue_fix\<close> here.
\<close>

record Issue =
  issue_id :: string
  line :: nat
  issue_type :: string
  severity :: Severity
  description :: string
  issue_fix :: string
  startIndex :: nat
  endIndex :: nat
  replacement :: string
  why :: string

section \<open>String primitives of the host language\<close>

text \<open>\<^verbatim>\<open>s.startsWith(p)\<close>, comparing character by character.\<close>

fun startsWith :: "string \<Rightarrow> string \<Rightarrow> bool" where
  "startsWith s [] = True"
| "startsWith [] (p # ps) = False"
| "startsWith (c # cs) (p # ps) = (if c = p then startsWith cs ps else False)"

text \<open>\<^verbatim>\<open>s.includes(sub)\<close>: some suffix of \<open>s\<close> starts with \<open>sub\<close>.\<close>

fun includes_str :: "string \<Rightarrow> string \<Rightarrow> bool" where
  "includes_str [] sub = (sub = [])"
| "includes_str (c # cs) sub = (if startsWith (c # cs) sub then True else includes_str cs sub)"

text \<open>\<^verbatim>\<open>s.indexOf(sub)\<close>, with \<open>None\<close> for the result \<^verbatim>\<open>-1\<close>.\<close>

fun indexOf :: "string \<Rightarrow> string \<Rightarrow> nat option" where
  "indexOf [] sub = (if sub = [] then Some 0 else None)"
| "indexOf (c # cs) sub =
     (if startsWith (c # cs) sub then Some 0 else map_option Suc (indexOf cs sub))"

text \<open>\<^verbatim>\<open>s.lastIndexOf(c)\<close> for a single character, \<^verbatim>\<open>-1\<close> when it does not occur.\<close>

fun lastIndexOf :: "string \<Rightarrow> char \<Rightarrow> int" where
  "lastIndexOf [] c = -1"
| "lastIndexOf (x # xs) c =
     (let r = lastIndexOf xs c in
      if r \<noteq> -1 then r + 1 else if x = c then 0 else -1)"

text \<open>\<^verbatim>\<open>s.substring(a, b)\<close>: both ends are clamped to the length and swapped if needed.\<close>

definition substring :: "string \<Rightarrow> nat \<Rightarrow> nat \<Rightarrow> string" where
  "substring s a b =
     (let a' = min a (length s); b' = min b (length s);
          lo = min a' b'; hi = max a' b'
      in take (hi - lo) (drop lo s))"

text \<open>\<^verbatim>\<open>s.split(sep)\<close> for a single-character separator; the result is never empty.\<close>

fun split :: "string \<Rightarrow> char \<Rightarrow> string list" where
  "split [] sep = [[]]"
| "split (c # cs) sep =
     (let rest = split cs sep in
      if c = sep then [] # rest else (c # hd rest) # tl rest)"

text \<open>
  \<^verbatim>\<open>s.replace(pat, rep)\<close> with a string pattern: the first occurrence only. No
  replacement text of this program contains \<^verbatim>\<open>$\<close>, so it is inserted literally.
\<close>

definition replace :: "string \<Rightarrow> string \<Rightarrow> string \<Rightarrow> string" where
  "replace s pat rep =
     (case indexOf s pat of
        None \<Rightarrow> s
      | Some i \<Rightarrow> take i s @ rep @ drop (i + length pat) s)"

text \<open>Number to string conversion of a non-negative integer: its decimal digits.\<close>

definition digitChar :: "nat \<Rightarrow> char" where
  "digitChar d = ''0123456789'' ! (d mod 10)"

fun toString :: "nat \<Rightarrow> string" where
  "toString n = (if n < 10 then [digitChar n] else toString (n div 10) @ [digitChar n])"

declare toString.simps [simp del]

text \<open>White space and line terminators below 256 (the class \<^verbatim>\<open>\s\<close>, also used by \<^verbatim>\<open>trim\<close>).\<close>

fun charIn :: "char \<Rightarrow> string \<Rightarrow> bool" where
  "charIn c [] = False"
| "charIn c (x # xs) = (if c = x then True else charIn c xs)"

definition isSpace :: "char \<Rightarrow> bool" where
  "isSpace c = charIn c [CHR 0x20, CHR 0x0A, CHR 0x09, CHR 0x0B, CHR 0x0C, CHR 0x0D, CHR 0xA0]"

definition isLineTerminator :: "char \<Rightarrow> bool" where
  "isLineTerminator c = charIn c [CHR 0x0A, CHR 0x0D]"

definition isDigit :: "char \<Rightarrow> bool" where
  "isDigit c = charIn c ''0123456789''"

definition isUpper :: "char \<Rightarrow> bool" where
  "isUpper c = charIn c ''ABCDEFGHIJKLMNOPQRSTUVWXYZ''"

definition isLower :: "char \<Rightarrow> bool" where
  "isLower c = charIn c ''abcdefghijklmnopqrstuvwxyz''"

text \<open>The class \<^verbatim>\<open>\w\<close>: letters, digits and the underscore.\<close>

definition isWordChar :: "char \<Rightarrow> bool" where
  "isWordChar c =
     (if isLower c then True else if isUpper c then True else if isDigit c then True
      else c = CHR ''_'')"

text \<open>
  Upper-casing and lower-casing of one code unit, on the ASCII letters. The program
  upper-cases only text matched by an alternation of upper-case keywords followed by
  white space.
\<close>

definition upperChar :: "char \<Rightarrow> char" where
  "upperChar c =
     (case map_of (zip ''abcdefghijklmnopqrstuvwxyz'' ''ABCDEFGHIJKLMNOPQRSTUVWXYZ'') c of
        None \<Rightarrow> c
      | Some u \<Rightarrow> u)"

definition lowerChar :: "char \<Rightarrow> char" where
  "lowerChar c =
     (case map_of (zip ''ABCDEFGHIJKLMNOPQRSTUVWXYZ'' ''abcdefghijklmnopqrstuvwxyz'') c of
        None \<Rightarrow> c
      | Some l \<Rightarrow> l)"

definition toUpperCase :: "string \<Rightarrow> string" where
  "toUpperCase s = map upperChar s"

definition trim :: "string \<Rightarrow> string" where
  "trim s = rev (dropWhile isSpace (rev (dropWhile isSpace s)))"

section \<open>Regular expressions\<close>

text \<open>
  The syntax of the regular expressions this program uses. A capture group is a plain
  group: the program uses no back reference and reads no group of a match.
\<close>

datatype citem = CChar char | CRange char char | CSpace | CNotSpace | CWord | CDigit

datatype regex =
    Lit string
  | Class bool "citem list"
  | Dot
  | Seq regex regex
  | Alt regex regex
  | Star regex
  | WordB
  | Bol
  | Eol
  | NotAhead regex
  | NotBehind regex

text \<open>
  \<open>Lit cs\<close> is the sequence of the literal characters \<open>cs\<close>; \<open>Class neg items\<close> is
  a bracket class (\<open>neg\<close> for \<^verbatim>\<open>[^...]\<close>) or one of \<^verbatim>\<open>\s \w \d\<close>; \<open>Star\<close> is the greedy
  \<^verbatim>\<open>*\<close>; \<open>WordB\<close>, \<open>Bol\<close>, \<open>Eol\<close> are \<^verbatim>\<open>\b ^ $\<close>; \<open>NotAhead\<close> is \<^verbatim>\<open>(?!...)\<close> and
  \<open>NotBehind\<close> is \<^verbatim>\<open>(?<!...)\<close>. The other operators are derived.
\<close>

definition Plus :: "regex \<Rightarrow> regex" where
  "Plus r = Seq r (Star r)"

definition Opt :: "regex \<Rightarrow> regex" where
  "Opt r = Alt r (Lit [])"

definition seqs :: "regex list \<Rightarrow> regex" where
  "seqs rs = foldr Seq rs (Lit [])"

fun alts :: "regex list \<Rightarrow> regex" where
  "alts [] = Class False []"
| "alts [r] = r"
| "alts (r # rs) = Alt r (alts rs)"

definition AtLeast :: "nat \<Rightarrow> regex \<Rightarrow> regex" where
  "AtLeast n r = seqs (replicate n r @ [Star r])"

definition sp :: regex where
  "sp = Class False [CSpace]"

definition wd :: regex where
  "wd = Class False [CWord]"

definition noneOf :: "string \<Rightarrow> regex" where
  "noneOf cs = Class True (map CChar cs)"

definition oneOf :: "string \<Rightarrow> regex" where
  "oneOf cs = Class False (map CChar cs)"

fun inItem :: "char \<Rightarrow> citem \<Rightarrow> bool" where
  "inItem c (CChar d) = (c = d)"
| "inItem c (CRange a b) = ((of_char a :: nat) \<le> of_char c \<and> (of_char c :: nat) \<le> of_char b)"
| "inItem c CSpace = isSpace c"
| "inItem c CNotSpace = (\<not> isSpace c)"
| "inItem c CWord = isWordChar c"
| "inItem c CDigit = isDigit c"

text \<open>
  Membership in a class. Under the flag \<^verbatim>\<open>i\<close> a character is in the class when one of
  its two cases is (the classes of this program hold ASCII characters only).
\<close>

definition classHas :: "bool \<Rightarrow> citem list \<Rightarrow> char \<Rightarrow> bool" where
  "classHas ic items c =
     (if list_ex (inItem c) items then True
      else if ic then
        (if list_ex (inItem (upperChar c)) items then True
         else list_ex (inItem (lowerChar c)) items)
      else False)"

text \<open>The character at position \<open>i\<close>, if there is one.\<close>

definition charAt :: "string \<Rightarrow> nat \<Rightarrow> char option" where
  "charAt s i = (case drop i s of [] \<Rightarrow> None | c # cs \<Rightarrow> Some c)"

text \<open>The literal \<open>cs\<close> at position \<open>i\<close>; under the flag \<^verbatim>\<open>i\<close> both sides are upper-cased.\<close>

definition litAt :: "bool \<Rightarrow> string \<Rightarrow> string \<Rightarrow> nat \<Rightarrow> bool" where
  "litAt ic cs s i =
     (if ic then startsWith (map upperChar (drop i s)) (map upperChar cs)
      else startsWith (drop i s) cs)"

definition wordAt :: "string \<Rightarrow> nat \<Rightarrow> bool" where
  "wordAt s i = (case charAt s i of None \<Rightarrow> False | Some c \<Rightarrow> isWordChar c)"

text \<open>
  The greedy star from position \<open>i\<close>: one more iteration first (an iteration that
  consumes nothing is rejected, as the language's matcher does), then the exit at \<open>i\<close>.
  Every iteration consumes a character, so \<open>n = length s - i\<close> iterations are enough.
\<close>

primrec starFrom :: "(nat \<Rightarrow> nat list) \<Rightarrow> nat \<Rightarrow> nat \<Rightarrow> nat list" where
  "starFrom step 0 i = [i]"
| "starFrom step (Suc n) i =
     concat (map (starFrom step n) (filter (\<lambda>j. i < j) (step i))) @ [i]"

text \<open>
  The backtracking matcher: \<open>rmatch r ic ml s i\<close> is the list of the end positions of
  the matches of \<open>r\<close> in \<open>s\<close> that start at \<open>i\<close>, in the order in which backtracking
  tries them; its head is the match the language reports. \<open>ic\<close> and \<open>ml\<close> are the flags
  \<^verbatim>\<open>i\<close> and \<^verbatim>\<open>m\<close>.
\<close>

primrec rmatch :: "regex \<Rightarrow> bool \<Rightarrow> bool \<Rightarrow> string \<Rightarrow> nat \<Rightarrow> nat list" where
  "rmatch (Lit cs) ic ml s i = (if litAt ic cs s i then [i + length cs] else [])"
| "rmatch (Class neg items) ic ml s i =
     (case charAt s i of
        None \<Rightarrow> []
      | Some c \<Rightarrow> if classHas ic items c \<noteq> neg then [Suc i] else [])"
| "rmatch Dot ic ml s i =
     (case charAt s i of
        None \<Rightarrow> []
      | Some c \<Rightarrow> if isLineTerminator c then [] else [Suc i])"
| "rmatch (Seq a b) ic ml s i = concat (map (rmatch b ic ml s) (rmatch a ic ml s i))"
| "rmatch (Alt a b) ic ml s i = rmatch a ic ml s i @ rmatch b ic ml s i"
| "rmatch (Star r) ic ml s i = starFrom (rmatch r ic ml s) (length s - i) i"
| "rmatch WordB ic ml s i =
     (if (if i = 0 then False else wordAt s (i - 1)) \<noteq> wordAt s i then [i] else [])"
| "rmatch Bol ic ml s i =
     (if i = 0 then [i]
      else if ml then
        (case charAt s (i - 1) of
           None \<Rightarrow> []
         | Some c \<Rightarrow> if isLineTerminator c then [i] else [])
      else [])"
| "rmatch Eol ic ml s i =
     (case charAt s i of
        None \<Rightarrow> if i = length s then [i] else []
      | Some c \<Rightarrow> if ml \<and> isLineTerminator c then [i] else [])"
| "rmatch (NotAhead r) ic ml s i = (if rmatch r ic ml s i = [] then [i] else [])"
| "rmatch (NotBehind r) ic ml s i =
     (if list_ex (\<lambda>j. i \<in> set (rmatch r ic ml s j)) [0..<Suc i] then [] else [i])"

text \<open>
  A \<^verbatim>\<open>RegExp\<close> object: its source, its flags and the mutable \<^verbatim>\<open>lastIndex\<close>.
\<close>

record RegExp =
  source :: regex
  global :: bool
  ignoreCase :: bool
  multiline :: bool
  lastIndex :: nat

text \<open>A regular expression literal \<^verbatim>\<open>/src/flags\<close>.\<close>

definition rx :: "regex \<Rightarrow> string \<Rightarrow> RegExp" where
  "rx r flags =
     \<lparr>source = r, global = (CHR ''g'' \<in> set flags), ignoreCase = (CHR ''i'' \<in> set flags),
      multiline = (CHR ''m'' \<in> set flags), lastIndex = 0\<rparr>"

text \<open>
  \<^verbatim>\<open>new RegExp(r, flags)\<close> for a \<^verbatim>\<open>RegExp\<close> object \<open>r\<close> and a flags text: a fresh object
  with the source of \<open>r\<close>; the given flags replace those of \<open>r\<close>, and \<^verbatim>\<open>lastIndex\<close>
  starts at 0.
\<close>

definition new_RegExp :: "RegExp \<Rightarrow> string \<Rightarrow> RegExp" where
  "new_RegExp r flags = rx (source r) flags"

definition matchAt :: "RegExp \<Rightarrow> string \<Rightarrow> nat \<Rightarrow> nat list" where
  "matchAt r s i = rmatch (source r) (ignoreCase r) (multiline r) s i"

text \<open>The leftmost match at or after \<open>from\<close>: its start and its end.\<close>

definition firstMatch :: "RegExp \<Rightarrow> string \<Rightarrow> nat \<Rightarrow> (nat \<times> nat) option" where
  "firstMatch r s from =
     (case find (\<lambda>i. matchAt r s i \<noteq> []) [from..<Suc (length s)] of
        None \<Rightarrow> None
      | Some i \<Rightarrow> Some (i, hd (matchAt r s i)))"

text \<open>
  \<^verbatim>\<open>r.exec(s)\<close>: the match (its index and its text) or \<open>None\<close> for \<^verbatim>\<open>null\<close>, and the
  object afterwards. A global object searches from its \<^verbatim>\<open>lastIndex\<close> and moves it to the
  end of the match, or back to 0 when there is none.
\<close>

definition regexp_exec :: "RegExp \<Rightarrow> string \<Rightarrow> (nat \<times> string) option \<times> RegExp" where
  "regexp_exec r s =
     (let li = (if global r then lastIndex r else 0) in
      if length s < li then (None, if global r then r\<lparr>lastIndex := 0\<rparr> else r)
      else (case firstMatch r s li of
              None \<Rightarrow> (None, if global r then r\<lparr>lastIndex := 0\<rparr> else r)
            | Some (i, e) \<Rightarrow>
                (Some (i, substring s i e), if global r then r\<lparr>lastIndex := e\<rparr> else r)))"

text \<open>\<^verbatim>\<open>r.test(s)\<close> on a regular expression literal, which is a fresh object.\<close>

definition regexp_test :: "RegExp \<Rightarrow> string \<Rightarrow> bool" where
  "regexp_test r s = (fst (regexp_exec r s) \<noteq> None)"

text \<open>\<^verbatim>\<open>s.replace(r, rep)\<close> for a regular expression without the flag \<^verbatim>\<open>g\<close>.\<close>

definition replace_regexp :: "string \<Rightarrow> RegExp \<Rightarrow> string \<Rightarrow> string" where
  "replace_regexp s r rep =
     (case firstMatch r s 0 of
        None \<Rightarrow> s
      | Some (i, e) \<Rightarrow> take i s @ rep @ drop e s)"

text \<open>The number of occurrences of a character: \<^verbatim>\<open>(s.match(/c/g) || []).length\<close>.\<close>

definition countChar :: "string \<Rightarrow> char \<Rightarrow> nat" where
  "countChar s c = length (filter (\<lambda>x. x = c) s)"

section \<open>The pattern tables\<close>

text \<open>
  The interface \<^verbatim>\<open>Pattern\<close>. The fields \<^verbatim>\<open>id\<close>, \<^verbatim>\<open>type\<close>, \<^verbatim>\<open>severity\<close>, \<^verbatim>\<open>description\<close>
  and \<^verbatim>\<open>why\<close> carry the prefix \<open>p\<close> here. A correction is a function of the host
  language, which may throw: \<open>None\<close> stands for a thrown exception.
\<close>

record Pattern =
  pid :: string
  ptype :: string
  pseverity :: Severity
  regex :: RegExp
  pdescription :: string
  fixDescription :: string
  correction :: "string \<Rightarrow> string option"
  pwhy :: string

text \<open>\<^verbatim>\<open>s.replace(/\s/g, rep)\<close>: every white space character is replaced.\<close>

definition replaceSpaces :: "string \<Rightarrow> string \<Rightarrow> string" where
  "replaceSpaces s rep = concat (map (\<lambda>c. if isSpace c then rep else [c]) s)"

definition SECURITY_PATTERNS :: "Pattern list" where
  "SECURITY_PATTERNS = [
     \<lparr>pid = ''hardcoded-secrets'',
      ptype = ''Security Risk'',
      pseverity = Critical,
      regex = rx (seqs [alts [Lit ''API_KEY'', Lit ''SECRET'', Lit ''TOKEN'', Lit ''PASSWORD'',
                Lit ''PRIVATE_KEY'', Lit ''ACCESS_KEY'', Lit ''AUTH_TOKEN''], Star sp,
                Lit ''='', Star sp, oneOf [CHR 0x27, CHR 0x22], AtLeast 5 (noneOf [CHR 0x27,
                CHR 0x22]), oneOf [CHR 0x27, CHR 0x22]]) ''i'',
      pdescription = ''Hardcoded secret detected'',
      fixDescription = ''Use environment variables'',
      correction = (\<lambda>match. let parts = split match (CHR ''='') in
          Some (hd parts @ ''= process.env.'' @ replaceSpaces (toUpperCase (trim (hd parts))) ''_'')),
      pwhy =
        ''Hardcoding secrets exposes them in version control. Use environment variables or secret managers.''\<rparr>,
     \<lparr>pid = ''sql-injection'',
      ptype = ''Security Risk'',
      pseverity = Critical,
      regex = rx (seqs [Lit ''='', Star sp, oneOf [CHR 0x22, CHR 0x27], Star (noneOf [CHR 0x22,
                CHR 0x27]), alts [Lit ''SELECT'', Lit ''INSERT'', Lit ''UPDATE'',
                Lit ''DELETE'', Lit ''FROM'', Lit ''WHERE''], Star (noneOf [CHR 0x22,
                CHR 0x27]), oneOf [CHR 0x22, CHR 0x27], Star sp, Lit ''+'', Star sp,
                Plus wd]) ''i'',
      pdescription = ''Potential SQL injection vulnerability'',
      fixDescription = ''Use parameterized queries'',
      correction = (\<lambda>match. Some (''/* SQL INJECTION RISK: '' @ match @ '' */'')),
      pwhy =
        ''String concatenation in SQL queries allows attackers to inject malicious SQL code.''\<rparr>,
     \<lparr>pid = ''eval-usage'',
      ptype = ''Security Risk'',
      pseverity = Critical,
      regex = rx (seqs [WordB, Lit ''eval'', Star sp, Lit ''('']) [],
      pdescription = ''eval() usage detected'',
      fixDescription = ''Avoid eval, use safer alternatives'',
      correction = (\<lambda>match. Some (''// REMOVED: '' @ match)),
      pwhy = ''eval() executes arbitrary code and is a major security vulnerability.''\<rparr>]"

definition RUNTIME_PATTERNS :: "Pattern list" where
  "RUNTIME_PATTERNS = [
     \<lparr>pid = ''infinite-loop'',
      ptype = ''Runtime Error'',
      pseverity = Critical,
      regex = rx (seqs [Lit ''while'', Star sp, Lit ''('', alts [Lit ''true'', Lit ''1'',
                Lit ''True''], Lit '')'']) [],
      pdescription = ''Potential infinite loop'',
      fixDescription = ''Ensure break condition exists'',
      correction = (\<lambda>match. Some match),
      pwhy = ''Infinite loops freeze the application, causing denial of service.''\<rparr>,
     \<lparr>pid = ''division-by-zero'',
      ptype = ''Runtime Error'',
      pseverity = Warning,
      regex = rx (seqs [Lit ''/'', Star sp, Lit ''0'', alts [Class True [CDigit,
                CChar (CHR ''.'')], Eol]]) [],
      pdescription = ''Potential division by zero'',
      fixDescription = ''Add zero check'',
      correction = (\<lambda>match. Some match),
      pwhy = ''Division by zero causes runtime errors or undefined behavior.''\<rparr>]"

definition QUALITY_PATTERNS :: "Pattern list" where
  "QUALITY_PATTERNS = [
     \<lparr>pid = ''todo-comment'',
      ptype = ''Code Quality'',
      pseverity = Info,
      regex = rx (seqs [alts [Lit ''//'', Lit ''#'', Lit ''/*''], Star sp, alts [Lit ''TODO'',
                Lit ''FIXME'', Lit ''HACK'', Lit ''XXX'', Lit ''BUG''], Opt (Lit '':'')]) ''i'',
      pdescription = ''Unresolved TODO/FIXME comment'',
      fixDescription = ''Address or remove'',
      correction = (\<lambda>match. Some []),
      pwhy = ''Production code should not have unresolved tasks.''\<rparr>,
     \<lparr>pid = ''debug-code'',
      ptype = ''Code Quality'',
      pseverity = Info,
      regex = rx (alts [Lit ''debugger'', Lit ''console.debug'', Lit ''System.out.print'',
                Lit ''fmt.Print'', Lit ''println!'']) [],
      pdescription = ''Debug code left in production'',
      fixDescription = ''Remove debug statements'',
      correction = (\<lambda>match. Some []),
      pwhy = ''Debug statements should be removed before production.''\<rparr>,
     \<lparr>pid = ''empty-catch'',
      ptype = ''Code Quality'',
      pseverity = Warning,
      regex = rx (seqs [Lit ''catch'', Star sp, Lit ''('', Star (noneOf '')''), Lit '')'',
                Star sp, Lit ''{'', Star sp, Lit ''}'']) [],
      pdescription = ''Empty catch block'',
      fixDescription = ''Handle or log the error'',
      correction = (\<lambda>match. Some (replace match ''{}'' ''{ console.error(err); }'')),
      pwhy = ''Empty catch blocks silently swallow errors, making debugging difficult.''\<rparr>]"

definition JS_TS_PATTERNS :: "Pattern list" where
  "JS_TS_PATTERNS = [
     \<lparr>pid = ''hallucinated-isempty'',
      ptype = ''Hallucination'',
      pseverity = Critical,
      regex = rx (seqs [Lit ''.'', Star sp, Lit ''isEmpty'', Star sp, Lit ''('', Star sp,
                Lit '')'']) [],
      pdescription = ''Array.isEmpty() does not exist in JS'',
      fixDescription = ''Use .length === 0'',
      correction = (\<lambda>match. Some ''.length === 0''),
      pwhy = ''AI often hallucinates .isEmpty() from Java. In JS, use .length === 0.''\<rparr>,
     \<lparr>pid = ''hallucinated-contains'',
      ptype = ''Hallucination'',
      pseverity = Critical,
      regex = rx (seqs [Lit ''.'', Star sp, Lit ''contains'', Star sp, Lit ''('']) [],
      pdescription = ''Array.contains() does not exist in JS'',
      fixDescription = ''Use .includes()'',
      correction = (\<lambda>match. Some (replace match ''contains'' ''includes'')),
      pwhy = ''Use .includes() for arrays or strings in JavaScript.''\<rparr>,
     \<lparr>pid = ''var-usage'',
      ptype = ''Deprecated'',
      pseverity = Warning,
      regex = rx (seqs [WordB, Lit ''var'', Plus sp, Plus wd]) [],
      pdescription = ''Using var instead of let/const'',
      fixDescription = ''Use let or const'',
      correction = (\<lambda>match. Some (replace match ''var'' ''const'')),
      pwhy = ''var has function scope which leads to bugs. Use block-scoped let/const.''\<rparr>,
     \<lparr>pid = ''loose-equality'',
      ptype = ''Code Quality'',
      pseverity = Info,
      regex = rx (seqs [noneOf ''!='', Lit ''=='', NotAhead (Lit ''='')]) [],
      pdescription = ''Loose equality (==)'',
      fixDescription = ''Use strict equality (===)'',
      correction = (\<lambda>match. Some (replace match ''=='' ''==='')),
      pwhy = ''Type coercion in == leads to unexpected comparisons.''\<rparr>,
     \<lparr>pid = ''console-log'',
      ptype = ''Code Quality'',
      pseverity = Info,
      regex = rx (seqs [Lit ''console.'', alts [Lit ''log'', Lit ''warn'', Lit ''error'',
                Lit ''info''], Star sp, Lit ''('', Star (noneOf '';''), Lit '')'',
                Opt (Lit '';'')]) [],
      pdescription = ''Console statement in code'',
      fixDescription = ''Comment out console statements'',
      correction = (\<lambda>match. Some (''// '' @ match)),
      pwhy = ''Console statements should be removed in production code.''\<rparr>,
     \<lparr>pid = ''promise-no-catch'',
      ptype = ''Missing Error Handling'',
      pseverity = Warning,
      regex = rx (seqs [Lit ''.then'', Star sp, Lit ''('', Star (noneOf '')''), Lit '')'',
                NotAhead (seqs [Star sp, Lit ''.catch''])]) [],
      pdescription = ''Promise without .catch()'',
      fixDescription = ''Add .catch() handler'',
      correction = (\<lambda>match. Some (match @ ''.catch(err => console.error(err))'')),
      pwhy = ''Unhandled promise rejections can crash the application.''\<rparr>,
     \<lparr>pid = ''async-no-try'',
      ptype = ''Missing Error Handling'',
      pseverity = Warning,
      regex = rx (seqs [Lit ''async'', Plus sp, alts [seqs [Lit ''function'', Plus sp,
                Plus wd], seqs [Lit ''('', Star (noneOf '')''), Lit '')'', Star sp,
                Lit ''=>''], seqs [Plus wd, Star sp, Lit ''=>'']], Star sp, Lit ''{'',
                NotAhead (seqs [Star (noneOf ''}''), Lit ''try''])]) [],
      pdescription = ''Async function without try-catch'',
      fixDescription = ''Wrap in try-catch'',
      correction = (\<lambda>match. Some match),
      pwhy = ''Async functions should handle errors with try-catch.''\<rparr>,
     \<lparr>pid = ''dangerously-set-html'',
      ptype = ''Security Risk'',
      pseverity = Critical,
      regex = rx (Lit ''dangerouslySetInnerHTML'') [],
      pdescription = ''dangerouslySetInnerHTML usage'',
      fixDescription = ''Sanitize HTML or avoid'',
      correction = (\<lambda>match. Some match),
      pwhy = ''Can lead to XSS attacks if HTML is not properly sanitized.''\<rparr>,
     \<lparr>pid = ''document-write'',
      ptype = ''Security Risk'',
      pseverity = Warning,
      regex = rx (seqs [Lit ''document.write'', Star sp, Lit ''('']) [],
      pdescription = ''document.write() usage'',
      fixDescription = ''Use DOM manipulation'',
      correction = (\<lambda>match. Some match),
      pwhy = ''document.write() is outdated and can cause security/performance issues.''\<rparr>,
     \<lparr>pid = ''hallucinated-isnotempty'',
      ptype = ''Hallucination'',
      pseverity = Critical,
      regex = rx (seqs [Lit ''.'', Star sp, Lit ''isNotEmpty'', Star sp, Lit ''('', Star sp,
                Lit '')'']) [],
      pdescription = ''Array.isNotEmpty() does not exist in JS'',
      fixDescription = ''Use .length > 0'',
      correction = (\<lambda>match. Some ''.length > 0''),
      pwhy = ''AI hallucinates .isNotEmpty() from other languages. Use .length > 0.''\<rparr>,
     \<lparr>pid = ''hallucinated-remove'',
      ptype = ''Hallucination'',
      pseverity = Critical,
      regex = rx (seqs [Lit ''.'', Star sp, Lit ''remove'', Star sp, Lit ''('',
                Plus (noneOf '')''), Lit '')'']) [],
      pdescription = ''Array.remove() does not exist in JS'',
      fixDescription = ''Use .filter() or .splice()'',
      correction = (\<lambda>match. Some (replace match ''.remove'' ''.filter'')),
      pwhy =
        ''Use .filter() to create a new array without the element, or .splice() to modify in place.''\<rparr>,
     \<lparr>pid = ''hallucinated-clear'',
      ptype = ''Hallucination'',
      pseverity = Critical,
      regex = rx (seqs [Plus wd, Lit ''.'', Star sp, Lit ''clear'', Star sp, Lit ''('',
                Star sp, Lit '')'']) [],
      pdescription = ''Array.clear() does not exist in JS'',
      fixDescription = ''Use arr.length = 0'',
      correction = (\<lambda>match. Some (replace match ''.clear()'' ''.length = 0'')),
      pwhy = ''To clear an array in JS, set .length = 0 or reassign to [].''\<rparr>,
     \<lparr>pid = ''missing-await-json'',
      ptype = ''Runtime Error'',
      pseverity = Critical,
      regex = rx (seqs [NotBehind (seqs [Lit ''await'', Plus sp]), Lit ''response.json'',
                Star sp, Lit ''('', Star sp, Lit '')'']) [],
      pdescription = ''Missing await on .json()'',
      fixDescription = ''Add await keyword'',
      correction = (\<lambda>match. Some (''await '' @ match)),
      pwhy =
        ''response.json() returns a Promise. Without await, you get the Promise, not the data.''\<rparr>,
     \<lparr>pid = ''missing-await-text'',
      ptype = ''Runtime Error'',
      pseverity = Critical,
      regex = rx (seqs [NotBehind (seqs [Lit ''await'', Plus sp]), Lit ''response.text'',
                Star sp, Lit ''('', Star sp, Lit '')'']) [],
      pdescription = ''Missing await on .text()'',
      fixDescription = ''Add await keyword'',
      correction = (\<lambda>match. Some (''await '' @ match)),
      pwhy =
        ''response.text() returns a Promise. Without await, you get the Promise, not the text.''\<rparr>]"

definition PYTHON_PATTERNS :: "Pattern list" where
  "PYTHON_PATTERNS = [
     \<lparr>pid = ''mutable-default'',
      ptype = ''Runtime Error'',
      pseverity = Critical,
      regex = rx (seqs [Lit ''def'', Plus sp, Plus wd, Star sp, Lit ''('', Star (noneOf '')''),
                Lit ''='', Star sp, alts [Lit ''[]'', Lit ''{}'', seqs [sp, Lit ''et()'']],
                Star (noneOf '')''), Lit '')'', Star sp, Lit '':'']) [],
      pdescription = ''Mutable default argument'',
      fixDescription = ''Use None as default'',
      correction = (\<lambda>match. Some (replace_regexp match
          (rx (seqs [Lit ''='', Star sp, alts [Lit ''[]'', Lit ''{}'', seqs [sp, Lit ''et()'']]]) [])
          ''=None'')),
      pwhy = ''Mutable defaults are shared between calls, causing unexpected behavior.''\<rparr>,
     \<lparr>pid = ''bare-except'',
      ptype = ''Code Quality'',
      pseverity = Warning,
      regex = rx (seqs [Lit ''except'', Star sp, Lit '':'']) [],
      pdescription = ''Bare except clause'',
      fixDescription = ''Specify exception type'',
      correction = (\<lambda>match. Some ''except Exception:''),
      pwhy = ''Bare except catches all exceptions including KeyboardInterrupt.''\<rparr>,
     \<lparr>pid = ''is-literal'',
      ptype = ''Logic Error'',
      pseverity = Warning,
      regex = rx (seqs [Plus sp, Lit ''is'', Plus sp, alts [oneOf [CHR 0x27, CHR 0x22],
                Class False [CRange (CHR ''0'') (CHR ''9'')]]]) [],
      pdescription = (''Using '' @ [CHR 0x22] @ ''is'' @ [CHR 0x22] @ '' with literals''),
      fixDescription = ''Use == for comparison'',
      correction = (\<lambda>match. Some (replace match '' is '' '' == '')),
      pwhy =
        ([CHR 0x22] @ ''is'' @ [CHR 0x22] @ '' checks identity, not equality. Use == for value comparison.'')\<rparr>,
     \<lparr>pid = ''print-statement'',
      ptype = ''Code Quality'',
      pseverity = Info,
      regex = rx (seqs [WordB, Lit ''print'', Star sp, Lit ''('']) [],
      pdescription = ''Print statement in code'',
      fixDescription = ''Use logging module'',
      correction = (\<lambda>match. Some match),
      pwhy = ''Use the logging module for production code.''\<rparr>,
     \<lparr>pid = ''deprecated-time-clock'',
      ptype = ''Deprecated'',
      pseverity = Warning,
      regex = rx (seqs [Lit ''time.clock'', Star sp, Lit ''('', Star sp, Lit '')'']) [],
      pdescription = ''time.clock() is deprecated'',
      fixDescription = ''Use time.perf_counter()'',
      correction = (\<lambda>match. Some ''time.perf_counter()''),
      pwhy = ''Removed in Python 3.8. Use perf_counter() or process_time().''\<rparr>,
     \<lparr>pid = ''deprecated-os-popen'',
      ptype = ''Deprecated'',
      pseverity = Warning,
      regex = rx (seqs [Lit ''os.popen'', Star sp, Lit ''('']) [],
      pdescription = ''os.popen() is deprecated'',
      fixDescription = ''Use subprocess.run()'',
      correction = (\<lambda>match. Some ''subprocess.run(''),
      pwhy = ''os.popen is deprecated. Use subprocess for process handling.''\<rparr>,
     \<lparr>pid = ''hallucinated-tf'',
      ptype = ''Hallucination'',
      pseverity = Critical,
      regex = rx (seqs [Lit ''import'', Plus sp, Lit ''tensorflow.'', alts [Lit ''advanced'',
                Lit ''extras'', Lit ''utilities'']]) [],
      pdescription = ''Hallucinated TensorFlow module'',
      fixDescription = ''Check TensorFlow API docs'',
      correction = (\<lambda>match. Some ''# Invalid import''),
      pwhy = ''AI often invents non-existent TensorFlow submodules.''\<rparr>,
     \<lparr>pid = ''f-string-no-f'',
      ptype = ''Logic Error'',
      pseverity = Warning,
      regex = rx (seqs [noneOf ''f'', oneOf [CHR 0x27, CHR 0x22], Star Dot, Lit ''{'',
                Plus (noneOf ''}''), Lit ''}'', Star Dot, oneOf [CHR 0x27, CHR 0x22]]) [],
      pdescription = ''String with {} but no f-prefix'',
      fixDescription = ''Add f prefix for f-string'',
      correction = (\<lambda>match. Some (''f'' @ match)),
      pwhy = ''Curly braces without f-prefix are literal characters, not interpolation.''\<rparr>,
     \<lparr>pid = ''pandas-isempty'',
      ptype = ''Hallucination'',
      pseverity = Critical,
      regex = rx (seqs [Lit ''.isEmpty'', Star sp, Lit ''('', Star sp, Lit '')'']) [],
      pdescription = ''DataFrame.isEmpty() does not exist'',
      fixDescription = ''Use .empty property'',
      correction = (\<lambda>match. Some ''.empty''),
      pwhy = ''pandas DataFrames use .empty property, not .isEmpty() method.''\<rparr>,
     \<lparr>pid = ''missing-self'',
      ptype = ''Logic Error'',
      pseverity = Critical,
      regex = rx (seqs [Lit ''def'', Plus sp, Plus wd, Star sp, Lit ''('', Star sp, Lit '')'',
                Star sp, Lit '':'']) [],
      pdescription = ''Method possibly missing self parameter'',
      fixDescription = ''Add self as first parameter'',
      correction = (\<lambda>match. Some (replace match ''()'' ''(self)'')),
      pwhy = ''Instance methods require self as the first parameter.''\<rparr>,
     \<lparr>pid = ''requests-no-try'',
      ptype = ''Missing Error Handling'',
      pseverity = Warning,
      regex = rx (seqs [Lit ''requests.'', alts [Lit ''get'', Lit ''post'', Lit ''put'',
                Lit ''delete'', Lit ''patch''], Star sp, Lit ''('']) [],
      pdescription = ''HTTP request without error handling'',
      fixDescription = ''Wrap in try/except'',
      correction = (\<lambda>match. Some match),
      pwhy = ''Network requests can fail. Handle requests.exceptions.RequestException.''\<rparr>]"

definition JAVA_PATTERNS :: "Pattern list" where
  "JAVA_PATTERNS = [
     \<lparr>pid = ''string-equals'',
      ptype = ''Logic Error'',
      pseverity = Critical,
      regex = rx (seqs [Lit ''=='', Star sp, oneOf [CHR 0x22, CHR 0x27],
                Star (noneOf [CHR 0x22, CHR 0x27]), oneOf [CHR 0x22, CHR 0x27]]) [],
      pdescription = ''String comparison with =='',
      fixDescription = ''Use .equals()'',
      correction = (\<lambda>match. Some (replace match ''=='' ''.equals('')),
      pwhy = ''== compares references, not values. Use .equals() for strings.''\<rparr>,
     \<lparr>pid = ''raw-type'',
      ptype = ''Code Quality'',
      pseverity = Warning,
      regex = rx (seqs [alts [Lit ''List'', Lit ''Map'', Lit ''Set'', Lit ''ArrayList'',
                Lit ''HashMap'', Lit ''HashSet''], Plus sp, Plus wd, Star sp, Lit ''='']) [],
      pdescription = ''Raw type without generics'',
      fixDescription = ''Add type parameters'',
      correction = (\<lambda>match. Some match),
      pwhy = ''Raw types bypass type safety. Use generics like List<String>.''\<rparr>,
     \<lparr>pid = ''system-exit'',
      ptype = ''Code Quality'',
      pseverity = Warning,
      regex = rx (seqs [Lit ''System.exit'', Star sp, Lit ''('']) [],
      pdescription = ''System.exit() in code'',
      fixDescription = ''Throw exception instead'',
      correction = (\<lambda>match. Some match),
      pwhy = ''System.exit() prevents cleanup and is bad for testing.''\<rparr>,
     \<lparr>pid = ''printStackTrace'',
      ptype = ''Code Quality'',
      pseverity = Info,
      regex = rx (seqs [Lit ''.printStackTrace'', Star sp, Lit ''('', Star sp, Lit '')'']) [],
      pdescription = ''printStackTrace() usage'',
      fixDescription = ''Use proper logging'',
      correction = (\<lambda>match. Some match),
      pwhy = ''Use a logging framework instead of printStackTrace().''\<rparr>,
     \<lparr>pid = ''null-pointer-risk'',
      ptype = ''Runtime Error'',
      pseverity = Warning,
      regex = rx (seqs [Lit ''.'', Plus wd, Lit ''()'', NotAhead (seqs [Star sp, Lit ''!='',
                Star sp, Lit ''null''])]) [],
      pdescription = ''Potential null pointer'',
      fixDescription = ''Add null check'',
      correction = (\<lambda>match. Some match),
      pwhy = ''Method chains without null checks can throw NullPointerException.''\<rparr>,
     \<lparr>pid = ''generic-exception-catch'',
      ptype = ''Code Quality'',
      pseverity = Warning,
      regex = rx (seqs [Lit ''catch'', Star sp, Lit ''('', Star sp, Lit ''Exception'', Plus sp,
                Plus wd, Star sp, Lit '')'']) [],
      pdescription = ''Catching generic Exception'',
      fixDescription = ''Catch specific exception types'',
      correction = (\<lambda>match. Some match),
      pwhy =
               ''Catching the generic Exception type hides bugs and makes debugging harder.''\<rparr>,
     \<lparr>pid = ''resource-leak'',
      ptype = ''Runtime Error'',
      pseverity = Warning,
      regex = rx (seqs [Lit ''new'', Plus sp, alts [Lit ''FileInputStream'',
                Lit ''FileOutputStream'', Lit ''BufferedReader'', Lit ''BufferedWriter'',
                Lit ''FileReader'', Lit ''FileWriter''], Star sp, Lit ''('']) [],
      pdescription = ''Resource opened without try-with-resources'',
      fixDescription = ''Use try-with-resources'',
      correction = (\<lambda>match. Some match),
      pwhy =
               ''Streams should be closed with try-with-resources to prevent resource leaks.''\<rparr>,
     \<lparr>pid = ''string-concat-loop'',
      ptype = ''Code Quality'',
      pseverity = Warning,
      regex = rx (seqs [Lit ''for'', Star sp, Lit ''('', Star (noneOf '')''), Lit '')'',
                Star (noneOf ''}''), Lit ''+='', Star sp, oneOf [CHR 0x22, CHR 0x27]]) [],
      pdescription = ''String concatenation in loop'',
      fixDescription = ''Use StringBuilder'',
      correction = (\<lambda>match. Some match),
      pwhy =
        ''String concatenation in loops creates many temporary objects. Use StringBuilder.''\<rparr>]"

definition GO_PATTERNS :: "Pattern list" where
  "GO_PATTERNS = [
     \<lparr>pid = ''ignored-error'',
      ptype = ''Missing Error Handling'',
      pseverity = Critical,
      regex = rx (seqs [Lit '','', Star sp, Lit ''_'', Star sp, Opt (Lit '':''), Lit ''='',
                Star sp, Plus wd, Lit ''('', Star (noneOf '')''), Lit '')'']) [],
      pdescription = ''Error ignored with underscore'',
      fixDescription = ''Handle the error'',
      correction = (\<lambda>match. Some match),
      pwhy = ''Ignoring errors with _ is a common source of bugs in Go.''\<rparr>,
     \<lparr>pid = ''panic-usage'',
      ptype = ''Code Quality'',
      pseverity = Warning,
      regex = rx (seqs [WordB, Lit ''panic'', Star sp, Lit ''('']) [],
      pdescription = ''panic() usage'',
      fixDescription = ''Return error instead'',
      correction = (\<lambda>match. Some match),
      pwhy = ''Prefer returning errors over panicking in library code.''\<rparr>,
     \<lparr>pid = ''fmt-print'',
      ptype = ''Code Quality'',
      pseverity = Info,
      regex = rx (seqs [Lit ''fmt.Print'', Opt (alts [Lit ''ln'', Lit ''f'']), Star sp,
                Lit ''('']) [],
      pdescription = ''fmt.Print in production'',
      fixDescription = ''Use proper logging'',
      correction = (\<lambda>match. Some match),
      pwhy = ''Use log package or structured logging for production.''\<rparr>,
     \<lparr>pid = ''goroutine-leak'',
      ptype = ''Runtime Error'',
      pseverity = Warning,
      regex = rx (seqs [Lit ''go'', Plus sp, Lit ''func'', Star sp, Lit ''('',
                Star (noneOf '')''), Lit '')'', Star sp, Lit ''{'', Star (noneOf ''}''),
                Lit ''for'', Star sp, Lit ''{'']) [],
      pdescription = ''Potential goroutine leak'',
      fixDescription = ''Add cancellation context'',
      correction = (\<lambda>match. Some match),
      pwhy = ''Goroutines with infinite loops need proper cancellation.''\<rparr>,
     \<lparr>pid = ''try-catch-go'',
      ptype = ''Hallucination'',
      pseverity = Critical,
      regex = rx (alts [seqs [WordB, Lit ''try'', Star sp, Lit ''{''], seqs [WordB,
                Lit ''catch'', Star sp, Lit ''('']]) [],
      pdescription = ''try/catch does not exist in Go'',
      fixDescription = ''Use error returns and if err != nil'',
      correction = (\<lambda>match. Some ''// Use: if err != nil { return err }''),
      pwhy = ''Go uses explicit error returns, not try/catch exceptions.''\<rparr>,
     \<lparr>pid = ''missing-defer-close'',
      ptype = ''Missing Error Handling'',
      pseverity = Warning,
      regex = rx (seqs [Lit ''os.Open'', Star sp, Lit ''('', Star (noneOf '')''), Lit '')'',
                NotAhead (seqs [Star (Class False [CSpace, CNotSpace]), Lit ''defer'',
                Star (Class False [CSpace, CNotSpace]), Lit ''.Close''])]) [],
      pdescription = ''File opened without defer Close()'',
      fixDescription = ''Add defer file.Close()'',
      correction = (\<lambda>match. Some match),
      pwhy = ''Files should be closed with defer to prevent resource leaks.''\<rparr>,
     \<lparr>pid = ''err-shadow'',
      ptype = ''Logic Error'',
      pseverity = Warning,
      regex = rx (seqs [Lit ''err'', Star sp, Lit '':='', Star Dot, Lit [CHR 0x0A], Star Dot,
                Lit ''err'', Star sp, Lit '':='']) [],
      pdescription = ''Error variable shadowing'',
      fixDescription = ''Use = instead of := for reassignment'',
      correction = (\<lambda>match. Some match),
      pwhy = ''Using := shadows the outer err variable, losing error information.''\<rparr>]"

definition RUST_PATTERNS :: "Pattern list" where
  "RUST_PATTERNS = [
     \<lparr>pid = ''unwrap-usage'',
      ptype = ''Runtime Error'',
      pseverity = Warning,
      regex = rx (seqs [Lit ''.unwrap'', Star sp, Lit ''('', Star sp, Lit '')'']) [],
      pdescription = ''.unwrap() can panic'',
      fixDescription = ''Use ? or match'',
      correction = (\<lambda>match. Some (replace match ''.unwrap()'' ''?'')),
      pwhy = ''unwrap() panics on None/Err. Use ? operator or pattern matching.''\<rparr>,
     \<lparr>pid = ''expect-usage'',
      ptype = ''Runtime Error'',
      pseverity = Info,
      regex = rx (seqs [Lit ''.expect'', Star sp, Lit ''('']) [],
      pdescription = ''.expect() can panic'',
      fixDescription = ''Use ? or match'',
      correction = (\<lambda>match. Some match),
      pwhy = ''expect() panics with a message. Consider proper error handling.''\<rparr>,
     \<lparr>pid = ''clone-overuse'',
      ptype = ''Code Quality'',
      pseverity = Info,
      regex = rx (seqs [Lit ''.clone'', Star sp, Lit ''('', Star sp, Lit '')'']) [],
      pdescription = ''Clone usage - performance impact'',
      fixDescription = ''Consider borrowing'',
      correction = (\<lambda>match. Some match),
      pwhy = ''Excessive cloning impacts performance. Consider borrowing instead.''\<rparr>,
     \<lparr>pid = ''unsafe-block'',
      ptype = ''Security Risk'',
      pseverity = Warning,
      regex = rx (seqs [WordB, Lit ''unsafe'', Star sp, Lit ''{'']) [],
      pdescription = ''Unsafe block detected'',
      fixDescription = ''Minimize unsafe code'',
      correction = (\<lambda>match. Some match),
      pwhy = ''Unsafe blocks bypass Rust safety guarantees. Use sparingly.''\<rparr>,
     \<lparr>pid = ''multiple-unwrap'',
      ptype = ''Code Quality'',
      pseverity = Warning,
      regex = rx (seqs [Lit ''.unwrap()'', Star Dot, Lit ''.unwrap()'']) [],
      pdescription = ''Multiple .unwrap() in chain'',
      fixDescription = ''Use ? operator with Result'',
      correction = (\<lambda>match. Some match),
      pwhy = ''Chained unwraps make debugging difficult. Use proper error propagation.''\<rparr>,
     \<lparr>pid = ''string-borrow'',
      ptype = ''Code Quality'',
      pseverity = Info,
      regex = rx (seqs [Lit ''&String'', NotAhead (seqs [Star sp, Lit '',''])]) [],
      pdescription = ''Borrowing String instead of &str'',
      fixDescription = ''Use &str for string references'',
      correction = (\<lambda>match. Some (replace match ''&String'' ''&str'')),
      pwhy = ''&str is more flexible than &String for function parameters.''\<rparr>,
     \<lparr>pid = ''missing-lifetime'',
      ptype = ''Logic Error'',
      pseverity = Warning,
      regex = rx (seqs [Lit ''fn'', Plus sp, Plus wd, Star sp, Lit ''('', Star (noneOf '')''),
                Lit ''&'', Class True [CChar (CHR 0x27), CSpace], Star (noneOf '')''),
                Lit '')'', Star sp, Lit ''->'', Star sp, Lit ''&'']) [],
      pdescription = ''Possible missing lifetime annotation'',
      fixDescription = ''Add lifetime parameter'',
      correction = (\<lambda>match. Some match),
      pwhy = ''Functions returning references usually need explicit lifetimes.''\<rparr>]"

definition CPP_PATTERNS :: "Pattern list" where
  "CPP_PATTERNS = [
     \<lparr>pid = ''raw-pointer'',
      ptype = ''Code Quality'',
      pseverity = Warning,
      regex = rx (seqs [Plus wd, Star sp, Lit ''*'', Plus sp, Plus wd, Star sp, Lit ''='',
                Star sp, Lit ''new'', Plus sp]) [],
      pdescription = ''Raw pointer with new'',
      fixDescription = ''Use smart pointers'',
      correction = (\<lambda>match. Some match),
      pwhy = ''Raw pointers cause memory leaks. Use unique_ptr or shared_ptr.''\<rparr>,
     \<lparr>pid = ''delete-mismatch'',
      ptype = ''Runtime Error'',
      pseverity = Critical,
      regex = rx (seqs [Lit ''delete'', Plus sp, Plus wd, NotAhead (seqs [Star sp,
                Lit ''[]''])]) [],
      pdescription = ''Single delete on array?'',
      fixDescription = ''Use delete[] for arrays'',
      correction = (\<lambda>match. Some match),
      pwhy = ''Using delete instead of delete[] on arrays causes undefined behavior.''\<rparr>,
     \<lparr>pid = ''printf-format'',
      ptype = ''Security Risk'',
      pseverity = Warning,
      regex = rx (seqs [Lit ''printf'', Star sp, Lit ''('', Star sp, Plus wd, Star sp,
                Lit '')'']) [],
      pdescription = ''printf with variable format'',
      fixDescription = (''Use '' @ [CHR 0x22] @ ''%s'' @ [CHR 0x22] @ '' format''),
      correction = (\<lambda>match. Some match),
      pwhy = ''Variable format strings enable format string attacks.''\<rparr>,
     \<lparr>pid = ''gets-usage'',
      ptype = ''Security Risk'',
      pseverity = Critical,
      regex = rx (seqs [WordB, Lit ''gets'', Star sp, Lit ''('']) [],
      pdescription = ''gets() is dangerous'',
      fixDescription = ''Use fgets()'',
      correction = (\<lambda>match. Some (replace match ''gets'' ''fgets'')),
      pwhy = ''gets() has no bounds checking, causing buffer overflows.''\<rparr>,
     \<lparr>pid = ''strcpy-usage'',
      ptype = ''Security Risk'',
      pseverity = Warning,
      regex = rx (seqs [WordB, Lit ''strcpy'', Star sp, Lit ''('']) [],
      pdescription = ''strcpy() is unsafe'',
      fixDescription = ''Use strncpy()'',
      correction = (\<lambda>match. Some (replace match ''strcpy'' ''strncpy'')),
      pwhy = ''strcpy() has no bounds checking. Use strncpy() or std::string.''\<rparr>,
     \<lparr>pid = ''cout-debug'',
      ptype = ''Code Quality'',
      pseverity = Info,
      regex = rx (seqs [Opt (Lit ''std::''), Lit ''cout'', Star sp, Lit ''<<'']) [],
      pdescription = ''cout in production code'',
      fixDescription = ''Use proper logging'',
      correction = (\<lambda>match. Some match),
      pwhy = ''Use a logging library instead of cout for production.''\<rparr>,
     \<lparr>pid = ''malloc-usage'',
      ptype = ''Code Quality'',
      pseverity = Warning,
      regex = rx (seqs [WordB, Lit ''malloc'', Star sp, Lit ''('']) [],
      pdescription = ''Using malloc in C++'',
      fixDescription = ''Use new or smart pointers'',
      correction = (\<lambda>match. Some match),
      pwhy = ''In C++, prefer new/delete or smart pointers over malloc/free.''\<rparr>,
     \<lparr>pid = ''new-no-delete'',
      ptype = ''Runtime Error'',
      pseverity = Warning,
      regex = rx (seqs [WordB, Lit ''new'', Plus sp, Plus wd,
                NotAhead (seqs [Star (noneOf '';''), Lit ''delete''])]) [],
      pdescription = ''new without corresponding delete'',
      fixDescription = ''Use smart pointers or add delete'',
      correction = (\<lambda>match. Some match),
      pwhy = ''Memory allocated with new must be freed to prevent leaks.''\<rparr>,
     \<lparr>pid = ''sprintf-usage'',
      ptype = ''Security Risk'',
      pseverity = Warning,
      regex = rx (seqs [WordB, Lit ''sprintf'', Star sp, Lit ''('']) [],
      pdescription = ''sprintf() is unsafe'',
      fixDescription = ''Use snprintf() instead'',
      correction = (\<lambda>match. Some (replace match ''sprintf'' ''snprintf'')),
      pwhy = ''sprintf has no buffer size limit, causing potential overflows.''\<rparr>,
     \<lparr>pid = ''using-namespace-std'',
      ptype = ''Code Quality'',
      pseverity = Info,
      regex = rx (seqs [Lit ''using'', Plus sp, Lit ''namespace'', Plus sp, Lit ''std'',
                Star sp, Lit '';'']) [],
      pdescription = ''using namespace std in header'',
      fixDescription = ''Use std:: prefix instead'',
      correction = (\<lambda>match. Some match),
      pwhy = ''Pollutes global namespace. Use explicit std:: prefix.''\<rparr>]"

section \<open>Helper functions\<close>

definition getLineFromIndex :: "string \<Rightarrow> nat \<Rightarrow> nat" where
  "getLineFromIndex code index = length (split (substring code 0 index) (CHR 0x0A))"

text \<open>
  \<^verbatim>\<open>checkMissingReturn\<close>: the variables of the closure that the loop over the lines
  updates, and the loop body for the line \<open>line\<close> with index \<open>i\<close>.
\<close>

record ReturnScan =
  found :: "Issue list"
  insideFunc :: bool
  expectedReturn :: bool
  funcStart :: nat
  braceCount :: int

definition missingReturnIssue :: "nat \<Rightarrow> Issue" where
  "missingReturnIssue fs =
     \<lparr>issue_id = ''missing-return-'' @ toString fs,
      line = fs + 1,
      issue_type = ''Logic Error'',
      severity = Warning,
      description = ''Function should return a value'',
      issue_fix = ''Add return statement'',
      startIndex = 0,
      endIndex = 0,
      replacement = [],
      why = ''Functions named get*/calculate*/find* typically should return something.''\<rparr>"

definition returnStep :: "ReturnScan \<Rightarrow> nat \<times> string \<Rightarrow> ReturnScan" where
  "returnStep st il =
     (let i = fst il; line = snd il;
          st1 = (if regexp_test
                     (rx (seqs [Lit ''function'', Plus sp, alts [Lit ''get'', Lit ''calculate'',
                       Lit ''compute'', Lit ''create'', Lit ''find'', Lit ''fetch''],
                       Star wd]) ''i'')
                     line
                 then st\<lparr>insideFunc := True, expectedReturn := True, funcStart := i,
                         braceCount := 0\<rparr>
                 else st)
      in if insideFunc st1 then
           (let st2 = st1\<lparr>braceCount := braceCount st1 + int (countChar line (CHR ''{''))\<rparr>;
                st3 = st2\<lparr>braceCount := braceCount st2 - int (countChar line (CHR ''}''))\<rparr>;
                st4 = (if includes_str line ''return '' then st3\<lparr>expectedReturn := False\<rparr>
                       else st3)
            in if braceCount st4 \<le> 0 \<and> includes_str line ''}'' then
                 (let st5 = (if expectedReturn st4
                             then st4\<lparr>found := found st4 @ [missingReturnIssue (funcStart st4)]\<rparr>
                             else st4)
                  in st5\<lparr>insideFunc := False, expectedReturn := False\<rparr>)
               else st4)
         else st1)"

definition checkMissingReturn :: "string \<Rightarrow> Language \<Rightarrow> Issue list" where
  "checkMissingReturn code language =
     (if language \<noteq> javascript \<and> language \<noteq> typescript then []
      else found (foldl returnStep
             \<lparr>found = [], insideFunc = False, expectedReturn = False, funcStart = 0,
              braceCount = 0\<rparr>
             (enumerate 0 (split code (CHR 0x0A)))))"

definition missingAwaitIssue :: "nat \<Rightarrow> string \<Rightarrow> Issue" where
  "missingAwaitIssue idx line_text =
     \<lparr>issue_id = ''missing-await-fetch-'' @ toString idx,
      line = idx + 1,
      issue_type = ''Runtime Error'',
      severity = Critical,
      description = ''fetch() called without await'',
      issue_fix = ''Add await keyword'',
      startIndex = 0,
      endIndex = 0,
      replacement = replace line_text ''fetch('' ''await fetch('',
      why = ''fetch() returns a Promise. Without await, you get Promise object, not response.''\<rparr>"

definition awaitStep :: "Issue list \<Rightarrow> nat \<times> string \<Rightarrow> Issue list" where
  "awaitStep issues il =
     (let idx = fst il; line = snd il in
      if includes_str line ''fetch('' \<and> \<not> includes_str line ''await '' \<and>
         \<not> includes_str line ''return fetch'' \<and> \<not> includes_str line ''.then''
      then issues @ [missingAwaitIssue idx line]
      else issues)"

definition checkMissingAwait :: "string \<Rightarrow> Language \<Rightarrow> Issue list" where
  "checkMissingAwait code language =
     (if language \<noteq> javascript \<and> language \<noteq> typescript then []
      else foldl awaitStep [] (enumerate 0 (split code (CHR 0x0A))))"

text \<open>Helper to check if a position is inside a comment or string.\<close>

definition isInsideCommentOrString :: "string \<Rightarrow> nat \<Rightarrow> Language \<Rightarrow> bool" where
  "isInsideCommentOrString code index language =
     (let beforeMatch = substring code 0 index;
          lineStart = nat (lastIndexOf beforeMatch (CHR 0x0A) + 1);
          lineContent = substring code lineStart index
      in if (language = javascript \<or> language = typescript \<or> language = java \<or>
             language = cpp \<or> language = go \<or> language = rust) \<and>
            includes_str lineContent ''//'' then True
         else if language = python \<and> includes_str lineContent ''#'' then True
         else if countChar lineContent (CHR 0x22) mod 2 = 1 then True
         else if countChar lineContent (CHR 0x27) mod 2 = 1 then True
         else False)"

section \<open>Applying the patterns\<close>

definition newIssue :: "Pattern \<Rightarrow> string \<Rightarrow> nat \<Rightarrow> string \<Rightarrow> string \<Rightarrow> Issue" where
  "newIssue pattern code index m0 rep =
     \<lparr>issue_id = pid pattern @ ''-'' @ toString index,
      line = getLineFromIndex code index,
      issue_type = ptype pattern,
      severity = pseverity pattern,
      description = pdescription pattern,
      issue_fix = fixDescription pattern,
      startIndex = index,
      endIndex = index + length m0,
      replacement = rep,
      why = pwhy pattern\<rparr>"

text \<open>
  The \<^verbatim>\<open>while\<close> loop of \<^verbatim>\<open>applyPatterns\<close> over the matches of one pattern, with the
  global \<^verbatim>\<open>RegExp\<close> object and the list of issues as its state. The loop may run for
  ever: the result \<open>None\<close> is a loop that does not end. A correction that throws leaves
  the loop for the \<^verbatim>\<open>catch\<close> clause that encloses it, which does nothing: the issues
  pushed so far stay.
\<close>

partial_function (option) matchLoop ::
  "string \<Rightarrow> Pattern \<Rightarrow> Language option \<Rightarrow> RegExp \<Rightarrow> Issue list \<Rightarrow> Issue list option" where
  "matchLoop code pattern language globalRegex issues =
     (case regexp_exec globalRegex code of
        (None, g) \<Rightarrow> Some issues
      | (Some m, g) \<Rightarrow>
          (let index = fst m in
           if (case language of None \<Rightarrow> False
               | Some l \<Rightarrow> isInsideCommentOrString code index l)
           then matchLoop code pattern language g issues
           else if list_ex (\<lambda>i. startIndex i = index \<and> startsWith (issue_id i) (pid pattern))
                     issues
           then matchLoop code pattern language g issues
           else (case correction pattern (snd m) of
                   None \<Rightarrow> Some issues
                 | Some rep \<Rightarrow>
                     matchLoop code pattern language g
                       (issues @ [newIssue pattern code index (snd m) rep]))))"

declare matchLoop.simps [code]

text \<open>
  \<^verbatim>\<open>applyPatterns\<close> pushes to the array it is given; the model returns the array
  afterwards.
\<close>

fun applyPatterns ::
  "string \<Rightarrow> Pattern list \<Rightarrow> Issue list \<Rightarrow> Language option \<Rightarrow> Issue list option" where
  "applyPatterns code [] issues language = Some issues"
| "applyPatterns code (pattern # patterns) issues language =
     (case matchLoop code pattern language (new_RegExp (regex pattern) ''g'') issues of
        None \<Rightarrow> None
      | Some issues' \<Rightarrow> applyPatterns code patterns issues' language)"

section \<open>The main analysis function\<close>

definition severityWeight :: "Severity \<Rightarrow> int" where
  "severityWeight s = (case s of Critical \<Rightarrow> 3 | Warning \<Rightarrow> 2 | Info \<Rightarrow> 1)"

text \<open>The comparison function given to \<^verbatim>\<open>sort\<close>.\<close>

definition compareIssues :: "Issue \<Rightarrow> Issue \<Rightarrow> int" where
  "compareIssues a b =
     (let weightDiff = severityWeight (severity b) - severityWeight (severity a) in
      if weightDiff \<noteq> 0 then weightDiff else int (line a) - int (line b))"

text \<open>
  \<^verbatim>\<open>Array.prototype.sort\<close> with a comparison function: a stable sort. An element goes
  before the first element of the sorted rest that it does not have to follow.
\<close>

fun insertBy :: "('a \<Rightarrow> 'a \<Rightarrow> int) \<Rightarrow> 'a \<Rightarrow> 'a list \<Rightarrow> 'a list" where
  "insertBy cmp x [] = [x]"
| "insertBy cmp x (y # ys) = (if cmp x y \<le> 0 then x # y # ys else y # insertBy cmp x ys)"

definition sortBy :: "('a \<Rightarrow> 'a \<Rightarrow> int) \<Rightarrow> 'a list \<Rightarrow> 'a list" where
  "sortBy cmp xs = foldr (insertBy cmp) xs []"

definition MAX_ISSUES :: nat where
  "MAX_ISSUES = 20"

text \<open>
  The pattern tables are objects of the module: their \<^verbatim>\<open>RegExp\<close> objects carry the
  mutable \<^verbatim>\<open>lastIndex\<close>. \<open>Module\<close> is the state of these objects and \<open>TABLES\<close> is
  their state when the module is loaded. \<^verbatim>\<open>analyzeCode\<close> reads the tables and never
  writes them.
\<close>

record Module =
  security_patterns :: "Pattern list"
  runtime_patterns :: "Pattern list"
  quality_patterns :: "Pattern list"
  js_ts_patterns :: "Pattern list"
  python_patterns :: "Pattern list"
  java_patterns :: "Pattern list"
  go_patterns :: "Pattern list"
  rust_patterns :: "Pattern list"
  cpp_patterns :: "Pattern list"

definition TABLES :: Module where
  "TABLES =
     \<lparr>security_patterns = SECURITY_PATTERNS, runtime_patterns = RUNTIME_PATTERNS,
      quality_patterns = QUALITY_PATTERNS, js_ts_patterns = JS_TS_PATTERNS,
      python_patterns = PYTHON_PATTERNS, java_patterns = JAVA_PATTERNS,
      go_patterns = GO_PATTERNS, rust_patterns = RUST_PATTERNS,
      cpp_patterns = CPP_PATTERNS\<rparr>"

text \<open>
  The first part of \<^verbatim>\<open>analyzeCode\<close>, up to the sort: the issues found, in the order of
  discovery.
\<close>

definition foundIssues :: "Module \<Rightarrow> string \<Rightarrow> Language \<Rightarrow> Issue list option" where
  "foundIssues M code language =
     (case applyPatterns code (security_patterns M) [] (Some language) of
        None \<Rightarrow> None
      | Some issues1 \<Rightarrow>
     (case applyPatterns code (runtime_patterns M) issues1 (Some language) of
        None \<Rightarrow> None
      | Some issues2 \<Rightarrow>
     (case (case language of
              javascript \<Rightarrow>
                map_option (\<lambda>is. (is @ checkMissingAwait code language)
                                   @ checkMissingReturn code language)
                  (applyPatterns code (js_ts_patterns M) issues2 (Some language))
            | typescript \<Rightarrow>
                map_option (\<lambda>is. (is @ checkMissingAwait code language)
                                   @ checkMissingReturn code language)
                  (applyPatterns code (js_ts_patterns M) issues2 (Some language))
            | python \<Rightarrow> applyPatterns code (python_patterns M) issues2 (Some language)
            | java \<Rightarrow> applyPatterns code (java_patterns M) issues2 (Some language)
            | go \<Rightarrow> applyPatterns code (go_patterns M) issues2 (Some language)
            | rust \<Rightarrow> applyPatterns code (rust_patterns M) issues2 (Some language)
            | cpp \<Rightarrow> applyPatterns code (cpp_patterns M) issues2 (Some language)) of
        None \<Rightarrow> None
      | Some issues3 \<Rightarrow> applyPatterns code (quality_patterns M) issues3 (Some language))))"

text \<open>\<^verbatim>\<open>analyzeCode\<close> on a given state of the module's tables.\<close>

definition analyzeCodeIn :: "Module \<Rightarrow> string \<Rightarrow> Language \<Rightarrow> Issue list option" where
  "analyzeCodeIn M code language =
     (case foundIssues M code language of
        None \<Rightarrow> None
      | Some issues \<Rightarrow>
          (let sorted = sortBy compareIssues issues in Some (take MAX_ISSUES sorted)))"

definition analyzeCode :: "string \<Rightarrow> Language \<Rightarrow> Issue list option" where
  "analyzeCode code language = analyzeCodeIn TABLES code language"

section \<open>Language detection\<close>

definition detectLanguage :: "string \<Rightarrow> Language" where
  "detectLanguage code =
     (if regexp_test (rx (seqs [WordB, Lit ''def'', Plus sp, Plus wd, Star sp, Lit ''('',
                      Star (noneOf '')''), Lit '')'', Star sp, Lit '':'']) []) code
      then python else
      if regexp_test (rx (alts [seqs [Bol, Lit ''import'', Plus sp, Plus wd], seqs [Bol,
                      Lit ''from'', Plus sp, Plus wd, Plus sp, Lit ''import'']]) ''m'') code
      then python else
      if regexp_test (rx (seqs [Bol, Star sp, Lit ''class'', Plus sp, Plus wd, Star sp,
                      Lit '':'']) ''m'') code
      then python else
      if regexp_test (rx (seqs [WordB, Lit ''fn'', Plus sp, Plus wd, Star sp,
                      oneOf ''<('']) []) code
      then rust else
      if regexp_test (rx (seqs [Lit ''->'', Star sp, alts [Lit ''Result'', Lit ''Option'',
                      Lit ''Self'', Lit ''&'', Plus wd]]) []) code
      then rust else
      if regexp_test (rx (seqs [WordB, Lit ''let'', Plus sp, Lit ''mut'', Plus sp]) []) code
      then rust else
      if regexp_test (rx (seqs [WordB, Lit ''impl'', Plus sp, Plus wd]) []) code
      then rust else
      if regexp_test (rx (seqs [WordB, Lit ''use'', Plus sp, Lit ''std::'']) []) code
      then rust else
      if regexp_test (rx (seqs [Bol, Lit ''package'', Plus sp, Plus wd]) ''m'') code
      then go else
      if regexp_test (rx (seqs [WordB, Lit ''func'', Plus sp, Plus wd, Star sp,
                      Lit ''('']) []) code
      then go else
      if regexp_test (rx (Lit '':='') []) code
        \<and> regexp_test (rx (seqs [WordB, Lit ''fmt.'']) []) code
      then go else
      if regexp_test (rx (seqs [WordB, Lit ''public'', Plus sp, Lit ''class'', Plus sp,
                      Plus wd]) []) code
      then java else
      if regexp_test (rx (seqs [WordB, Lit ''private'', Plus sp, Plus wd, Plus sp, Plus wd,
                      Star sp, Lit ''('']) []) code
      then java else
      if regexp_test (rx (Lit ''System.out.print'') []) code
      then java else
      if regexp_test (rx (seqs [Lit ''#include'', Star sp, Lit ''<'']) []) code
      then cpp else
      if regexp_test (rx (seqs [WordB, Lit ''std::'']) []) code
      then cpp else
      if regexp_test (rx (seqs [WordB, Lit ''int'', Plus sp, Lit ''main'', Star sp,
                      Lit ''('']) []) code
        \<and> regexp_test (rx (Lit ''#include'') []) code
      then cpp else
      if regexp_test (rx (seqs [Lit '':'', Star sp, alts [Lit ''string'', Lit ''number'',
                      Lit ''boolean'', Lit ''any''], WordB]) []) code
      then typescript else
      if regexp_test (rx (seqs [Lit ''interface'', Plus sp, Plus wd, Star sp, Lit ''{'']) []) code
      then typescript else
      if regexp_test (rx (seqs [WordB, Lit ''type'', Plus sp, Plus wd, Star sp,
                      Lit ''='']) []) code
      then typescript else
      if regexp_test (rx (seqs [WordB, alts [Lit ''const'', Lit ''let'', Lit ''var''], Plus sp,
                      Plus wd, Star sp, Lit ''='']) []) code
      then javascript else
      if regexp_test (rx (seqs [WordB, Lit ''function'', Plus sp, Plus wd, Star sp,
                      Lit ''('']) []) code
      then javascript else
      if regexp_test (rx (seqs [Lit ''=>'', Star sp, Lit ''{'']) []) code
      then javascript else
      javascript)"

text \<open>
  The waterfall of the specification: the fingerprints in their fixed order, each with
  the language it stands for; a fingerprint fires when all its tests succeed, the first
  one that fires wins, and the default is \<open>javascript\<close>.
\<close>

definition fingerprints :: "(RegExp list \<times> Language) list" where
  "fingerprints = [
     ([rx (seqs [WordB, Lit ''def'', Plus sp, Plus wd, Star sp, Lit ''('', Star (noneOf '')''),
         Lit '')'', Star sp, Lit '':'']) []],
      python),
     ([rx (alts [seqs [Bol, Lit ''import'', Plus sp, Plus wd], seqs [Bol, Lit ''from'',
         Plus sp, Plus wd, Plus sp, Lit ''import'']]) ''m''],
      python),
     ([rx (seqs [Bol, Star sp, Lit ''class'', Plus sp, Plus wd, Star sp, Lit '':'']) ''m''],
      python),
     ([rx (seqs [WordB, Lit ''fn'', Plus sp, Plus wd, Star sp, oneOf ''<('']) []],
      rust),
     ([rx (seqs [Lit ''->'', Star sp, alts [Lit ''Result'', Lit ''Option'', Lit ''Self'',
         Lit ''&'', Plus wd]]) []],
      rust),
     ([rx (seqs [WordB, Lit ''let'', Plus sp, Lit ''mut'', Plus sp]) []],
      rust),
     ([rx (seqs [WordB, Lit ''impl'', Plus sp, Plus wd]) []],
      rust),
     ([rx (seqs [WordB, Lit ''use'', Plus sp, Lit ''std::'']) []],
      rust),
     ([rx (seqs [Bol, Lit ''package'', Plus sp, Plus wd]) ''m''],
      go),
     ([rx (seqs [WordB, Lit ''func'', Plus sp, Plus wd, Star sp, Lit ''('']) []],
      go),
     ([rx (Lit '':='') [],
       rx (seqs [WordB, Lit ''fmt.'']) []],
      go),
     ([rx (seqs [WordB, Lit ''public'', Plus sp, Lit ''class'', Plus sp, Plus wd]) []],
      java),
     ([rx (seqs [WordB, Lit ''private'', Plus sp, Plus wd, Plus sp, Plus wd, Star sp,
         Lit ''('']) []],
      java),
     ([rx (Lit ''System.out.print'') []],
      java),
     ([rx (seqs [Lit ''#include'', Star sp, Lit ''<'']) []],
      cpp),
     ([rx (seqs [WordB, Lit ''std::'']) []],
      cpp),
     ([rx (seqs [WordB, Lit ''int'', Plus sp, Lit ''main'', Star sp, Lit ''('']) [],
       rx (Lit ''#include'') []],
      cpp),
     ([rx (seqs [Lit '':'', Star sp, alts [Lit ''string'', Lit ''number'', Lit ''boolean'',
         Lit ''any''], WordB]) []],
      typescript),
     ([rx (seqs [Lit ''interface'', Plus sp, Plus wd, Star sp, Lit ''{'']) []],
      typescript),
     ([rx (seqs [WordB, Lit ''type'', Plus sp, Plus wd, Star sp, Lit ''='']) []],
      typescript),
     ([rx (seqs [WordB, alts [Lit ''const'', Lit ''let'', Lit ''var''], Plus sp, Plus wd,
         Star sp, Lit ''='']) []],
      javascript),
     ([rx (seqs [WordB, Lit ''function'', Plus sp, Plus wd, Star sp, Lit ''('']) []],
      javascript),
     ([rx (seqs [Lit ''=>'', Star sp, Lit ''{'']) []],
      javascript)]"

definition fires :: "string \<Rightarrow> RegExp list \<times> Language \<Rightarrow> bool" where
  "fires code fp = list_all (\<lambda>r. regexp_test r code) (fst fp)"

definition waterfall :: "string \<Rightarrow> Language" where
  "waterfall code =
     (case find (fires code) fingerprints of
        None \<Rightarrow> javascript
      | Some fp \<Rightarrow> snd fp)"


section \<open>The health score of \<^verbatim>\<open>App.tsx\<close>\<close>

text \<open>The body of the loop over the issues in \<^verbatim>\<open>runAnalysis\<close>, and the final score.\<close>

definition deductStep :: "int \<Rightarrow> Issue \<Rightarrow> int" where
  "deductStep deduct i =
     (let d1 = (if severity i = Critical then deduct + 15 else deduct);
          d2 = (if severity i = Warning then d1 + 5 else d1)
      in if severity i = Info then d2 + 1 else d2)"

definition finalScore :: "Issue list \<Rightarrow> int" where
  "finalScore issues = max 0 (100 - foldl deductStep 0 issues)"

section \<open>Notions used in the statements\<close>

text \<open>The condition under which \<^verbatim>\<open>checkMissingAwait\<close> flags a line.\<close>

definition awaitCond :: "string \<Rightarrow> bool" where
  "awaitCond l =
     (includes_str l ''fetch('' \<and> \<not> includes_str l ''await '' \<and>
      \<not> includes_str l ''return fetch'' \<and> \<not> includes_str l ''.then'')"






text \<open>
  The prefix on the matched line: the text from the start of the line that holds the
  offset \<open>index\<close> up to \<open>index\<close>.
\<close>

definition linePrefix :: "string \<Rightarrow> nat \<Rightarrow> string" where
  "linePrefix code index = rev (takeWhile (\<lambda>c. c \<noteq> CHR 0x0A) (rev (take index code)))"

text \<open>
  The suppression condition of the specification: the prefix holds the line-comment
  marker of the language, or an odd number of double quotes, or an odd number of single
  quotes.
\<close>

definition suppressed :: "string \<Rightarrow> nat \<Rightarrow> Language \<Rightarrow> bool" where
  "suppressed code index language =
     ((language \<in> {javascript, typescript, java, cpp, go, rust} \<and>
         sublist ''//'' (linePrefix code index)) \<or>
      (language = python \<and> CHR ''#'' \<in> set (linePrefix code index)) \<or>
      odd (count_list (linePrefix code index) (CHR 0x22)) \<or>
      odd (count_list (linePrefix code index) (CHR 0x27)))"

text \<open>
  The ranking order: \<open>a\<close> may stand before \<open>b\<close> when its severity weighs more, or weighs
  the same and its line is not greater.
\<close>

definition rankedBefore :: "Issue \<Rightarrow> Issue \<Rightarrow> bool" where
  "rankedBefore a b =
     (severityWeight (severity b) < severityWeight (severity a) \<or>
      (severityWeight (severity a) = severityWeight (severity b) \<and> line a \<le> line b))"

text \<open>A regular expression that may match the empty text.\<close>

primrec nullable :: "regex \<Rightarrow> bool" where
  "nullable (Lit cs) = (cs = [])"
| "nullable (Class neg items) = False"
| "nullable Dot = False"
| "nullable (Seq a b) = (nullable a \<and> nullable b)"
| "nullable (Alt a b) = (nullable a \<or> nullable b)"
| "nullable (Star r) = True"
| "nullable WordB = True"
| "nullable Bol = True"
| "nullable Eol = True"
| "nullable (NotAhead r) = True"
| "nullable (NotBehind r) = True"

text \<open>
  Two states of the module's tables that differ at most in the \<^verbatim>\<open>lastIndex\<close> of their
  \<^verbatim>\<open>RegExp\<close> objects, the only mutable part of a table.
\<close>

definition sameRegExp :: "RegExp \<Rightarrow> RegExp \<Rightarrow> bool" where
  "sameRegExp r r' = (r' = r\<lparr>lastIndex := lastIndex r'\<rparr>)"

definition samePattern :: "Pattern \<Rightarrow> Pattern \<Rightarrow> bool" where
  "samePattern p p' = (p' = p\<lparr>regex := regex p'\<rparr> \<and> sameRegExp (regex p) (regex p'))"

definition sameModule :: "Module \<Rightarrow> Module \<Rightarrow> bool" where
  "sameModule M M' =
     (list_all2 samePattern (security_patterns M) (security_patterns M') \<and>
      list_all2 samePattern (runtime_patterns M) (runtime_patterns M') \<and>
      list_all2 samePattern (quality_patterns M) (quality_patterns M') \<and>
      list_all2 samePattern (js_ts_patterns M) (js_ts_patterns M') \<and>
      list_all2 samePattern (python_patterns M) (python_patterns M') \<and>
      list_all2 samePattern (java_patterns M) (java_patterns M') \<and>
      list_all2 samePattern (go_patterns M) (go_patterns M') \<and>
      list_all2 samePattern (rust_patterns M) (rust_patterns M') \<and>
      list_all2 samePattern (cpp_patterns M) (cpp_patterns M'))"


section \<open>Properties\<close>

subsection \<open>The health score\<close>

lemma foldl_deductStep:
  "foldl deductStep d issues =
     d + 15 * int (length (filter (\<lambda>i. severity i = Critical) issues))
       + 5 * int (length (filter (\<lambda>i. severity i = Warning) issues))
       + 1 * int (length (filter (\<lambda>i. severity i = Info) issues))"
  by (induction issues arbitrary: d) (auto simp: deductStep_def)

text \<open>
  Claim C8. For every sequence of issues the health score computed in \<^verbatim>\<open>runAnalysis\<close> is
  the maximum of 0 and 100 minus (15 for each Critical issue, 5 for each Warning issue and
  1 for each Info issue); it is never negative.
\<close>

theorem finalScore_formula:
  "finalScore issues =
     max 0 (100 - (15 * int (length (filter (\<lambda>i. severity i = Critical) issues))
                   + 5 * int (length (filter (\<lambda>i. severity i = Warning) issues))
                   + 1 * int (length (filter (\<lambda>i. severity i = Info) issues))))
   \<and> 0 \<le> finalScore issues"
  by (simp add: finalScore_def foldl_deductStep)

subsection \<open>Language detection\<close>

lemma detectLanguage_waterfall: "detectLanguage code = waterfall code"
  by (simp add: detectLanguage_def waterfall_def fingerprints_def fires_def)

text \<open>
  Claim C9. \<^verbatim>\<open>detectLanguage\<close> returns one of the seven languages on every text; it is
  the waterfall of the fingerprints, so it returns \<open>javascript\<close> when no fingerprint
  fires; on the empty text it returns \<open>javascript\<close>.
\<close>

theorem detectLanguage_total_default:
  "detectLanguage code \<in> {javascript, typescript, python, go, rust, java, cpp} \<and>
   detectLanguage code = waterfall code \<and>
   (find (fires code) fingerprints = None \<longrightarrow> detectLanguage code = javascript) \<and>
   detectLanguage [] = javascript"
proof (intro conjI impI)
  show "detectLanguage code \<in> {javascript, typescript, python, go, rust, java, cpp}"
    by (cases "detectLanguage code") simp_all
  show "detectLanguage code = waterfall code"
    by (rule detectLanguage_waterfall)
  show "detectLanguage code = javascript" if "find (fires code) fingerprints = None"
    using that by (simp add: detectLanguage_waterfall waterfall_def)
  show "detectLanguage [] = javascript"
    by code_simp
qed

theorem detectLanguage_total_default_witness:
  "find (fires ''hello world'') fingerprints = None \<and>
   detectLanguage ''hello world'' = javascript"
proof -
  have h: "find (fires ''hello world'') fingerprints = None"
    by code_simp
  from h detectLanguage_total_default [of "''hello world''"]
  show ?thesis by blast
qed

subsection \<open>Strings\<close>

lemma startsWith_prefix: "startsWith s p \<longleftrightarrow> prefix p s"
  by (induction s p rule: startsWith.induct) auto

lemma includes_str_sublist: "includes_str s sub \<longleftrightarrow> sublist sub s"
proof (induction s)
  case Nil
  then show ?case by simp
next
  case (Cons c cs)
  then show ?case
    by (auto simp: startsWith_prefix sublist_Cons_right)
qed



lemma foldl_awaitStep:
  "foldl awaitStep acc xs =
     acc @ map (\<lambda>il. missingAwaitIssue (fst il) (snd il)) (filter (\<lambda>il. awaitCond (snd il)) xs)"
  by (induction xs arbitrary: acc) (auto simp: awaitStep_def awaitCond_def Let_def)

lemma checkMissingAwait_set:
  "x \<in> set (checkMissingAwait code language) \<longleftrightarrow>
     (language = javascript \<or> language = typescript) \<and>
     (\<exists>il \<in> set (enumerate 0 (split code (CHR 0x0A))).
        awaitCond (snd il) \<and> x = missingAwaitIssue (fst il) (snd il))"
  by (auto simp: checkMissingAwait_def foldl_awaitStep)

lemma returnStep_found:
  assumes "\<forall>x \<in> set (found st). \<exists>fs. x = missingReturnIssue fs"
  shows "\<forall>x \<in> set (found (returnStep st il)). \<exists>fs. x = missingReturnIssue fs"
  using assms by (auto simp: returnStep_def Let_def)

lemma foldl_returnStep_found:
  assumes "\<forall>x \<in> set (found st). \<exists>fs. x = missingReturnIssue fs"
  shows "\<forall>x \<in> set (found (foldl returnStep st xs)). \<exists>fs. x = missingReturnIssue fs"
  using assms
proof (induction xs arbitrary: st)
  case Nil
  then show ?case by simp
next
  case (Cons a xs)
  show ?case
    unfolding foldl_Cons
    by (rule Cons.IH) (rule returnStep_found [OF Cons.prems])
qed

lemma checkMissingReturn_set:
  "x \<in> set (checkMissingReturn code language) \<Longrightarrow> \<exists>fs. x = missingReturnIssue fs"
  using foldl_returnStep_found [of "\<lparr>found = [], insideFunc = False, expectedReturn = False, funcStart = 0,
              braceCount = 0\<rparr>" "enumerate 0 (split code (CHR 0x0A))"]
  by (auto simp: checkMissingReturn_def split: if_splits)

lemma structural_startIndex:
  assumes "y \<in> set (checkMissingAwait code language) \<union> set (checkMissingReturn code language)"
  shows "startIndex y = 0"
proof -
  from assms have "(\<exists>idx l. y = missingAwaitIssue idx l) \<or> (\<exists>fs. y = missingReturnIssue fs)"
    by (auto simp: checkMissingAwait_set dest: checkMissingReturn_set)
  then show ?thesis
    by (auto simp: missingAwaitIssue_def missingReturnIssue_def)
qed






subsection \<open>Partial correctness of the scan\<close>


lemma matchLoop_invariant:
  assumes run: "matchLoop code p l g issues = Some r"
    and init: "I issues"
    and step: "\<And>is idx m0 rep.
        I is \<Longrightarrow>
        (\<forall>lang. l = Some lang \<longrightarrow> \<not> isInsideCommentOrString code idx lang) \<Longrightarrow>
        \<not> list_ex (\<lambda>i. startIndex i = idx \<and> startsWith (issue_id i) (pid p)) is \<Longrightarrow>
        correction p m0 = Some rep \<Longrightarrow>
        I (is @ [newIssue p code idx m0 rep])"
  shows "I r"
  using run init step
proof (induction code p l g issues r rule: matchLoop.raw_induct [rotated 1, consumes 1])
  case (1 loop code p l g issues r)
  note inv = "1.prems"(1) and step = "1.prems"(2)
  obtain mo g' where ex: "regexp_exec g code = (mo, g')"
    by (cases "regexp_exec g code")
  show ?case
  proof (cases mo)
    case None
    with ex "1.hyps" inv show ?thesis by simp
  next
    case (Some m)
    note body = "1.hyps" [unfolded ex Some, simplified]
    show ?thesis
    proof (cases "case l of None \<Rightarrow> False
                  | Some lang \<Rightarrow> isInsideCommentOrString code (fst m) lang")
      case True
      with body have "loop code p l g' issues = Some r"
        by (simp add: Let_def)
      from "1.IH" [OF this inv step] show ?thesis .
    next
      case notin: False
      show ?thesis
      proof (cases "list_ex (\<lambda>i. startIndex i = fst m \<and>
                       startsWith (issue_id i) (pid p)) issues")
        case True
        with notin body have "loop code p l g' issues = Some r"
          by (simp add: Let_def)
        from "1.IH" [OF this inv step] show ?thesis .
      next
        case fresh: False
        show ?thesis
        proof (cases "correction p (snd m)")
          case None
          with notin fresh body have "r = issues" by (simp add: Let_def)
          with inv show ?thesis by simp
        next
          case (Some rep)
          with notin fresh body
          have run': "loop code p l g'
              (issues @ [newIssue p code (fst m) (snd m) rep]) = Some r"
            by (simp add: Let_def)
          have "I (issues @ [newIssue p code (fst m) (snd m) rep])"
          proof (rule step [OF inv _ fresh Some])
            show "\<forall>lang. l = Some lang \<longrightarrow>
                    \<not> isInsideCommentOrString code (fst m) lang"
              using notin by (auto split: option.splits)
          qed
          from "1.IH" [OF run' this step] show ?thesis .
        qed
      qed
    qed
  qed
qed

lemma applyPatterns_invariant:
  assumes run: "applyPatterns code ps issues l = Some r"
    and init: "I issues"
    and step: "\<And>p is idx m0 rep.
        p \<in> set ps \<Longrightarrow> I is \<Longrightarrow>
        (\<forall>lang. l = Some lang \<longrightarrow> \<not> isInsideCommentOrString code idx lang) \<Longrightarrow>
        \<not> list_ex (\<lambda>i. startIndex i = idx \<and> startsWith (issue_id i) (pid p)) is \<Longrightarrow>
        correction p m0 = Some rep \<Longrightarrow>
        I (is @ [newIssue p code idx m0 rep])"
  shows "I r"
  using run init step
proof (induction ps arbitrary: issues)
  case Nil
  then show ?case by simp
next
  case (Cons p ps)
  from Cons.prems(1) obtain mid where
    one: "matchLoop code p l (new_RegExp (regex p) ''g'') issues = Some mid"
    and rest: "applyPatterns code ps mid l = Some r"
    by (auto split: option.splits)
  have "I mid"
    by (rule matchLoop_invariant [where I = I, OF one Cons.prems(2)])
       (rule Cons.prems(3), simp_all)
  show ?case
    by (rule Cons.IH [OF rest \<open>I mid\<close>]) (rule Cons.prems(3), simp_all)
qed

lemma foundIssues_invariant:
  assumes run: "foundIssues M code language = Some r"
    and init: "I []"
    and step: "\<And>p is idx m0 rep.
        I is \<Longrightarrow>
        \<not> isInsideCommentOrString code idx language \<Longrightarrow>
        \<not> list_ex (\<lambda>i. startIndex i = idx \<and> startsWith (issue_id i) (pid p)) is \<Longrightarrow>
        correction p m0 = Some rep \<Longrightarrow>
        I (is @ [newIssue p code idx m0 rep])"
    and struct: "\<And>is. I is \<Longrightarrow>
        I ((is @ checkMissingAwait code language) @ checkMissingReturn code language)"
  shows "I r"
proof -
  have ap: "I out" if "applyPatterns code ps is (Some language) = Some out" "I is"
    for ps "is" out
    by (rule applyPatterns_invariant [where I = I, OF that]) (rule step, simp_all)
  from run obtain i1 i2 i3 where
    r1: "applyPatterns code (security_patterns M) [] (Some language) = Some i1"
    and r2: "applyPatterns code (runtime_patterns M) i1 (Some language) = Some i2"
    and r3: "(case language of
              javascript \<Rightarrow>
                map_option (\<lambda>is. (is @ checkMissingAwait code language)
                                   @ checkMissingReturn code language)
                  (applyPatterns code (js_ts_patterns M) i2 (Some language))
            | typescript \<Rightarrow>
                map_option (\<lambda>is. (is @ checkMissingAwait code language)
                                   @ checkMissingReturn code language)
                  (applyPatterns code (js_ts_patterns M) i2 (Some language))
            | python \<Rightarrow> applyPatterns code (python_patterns M) i2 (Some language)
            | java \<Rightarrow> applyPatterns code (java_patterns M) i2 (Some language)
            | go \<Rightarrow> applyPatterns code (go_patterns M) i2 (Some language)
            | rust \<Rightarrow> applyPatterns code (rust_patterns M) i2 (Some language)
            | cpp \<Rightarrow> applyPatterns code (cpp_patterns M) i2 (Some language)) = Some i3"
    and r4: "applyPatterns code (quality_patterns M) i3 (Some language) = Some r"
    unfolding foundIssues_def by (auto split: option.splits)
  have "I i1" by (rule ap [OF r1 init])
  then have "I i2" by (rule ap [OF r2])
  have "I i3"
  proof (cases language)
    case javascript
    with r3 obtain j where "applyPatterns code (js_ts_patterns M) i2 (Some language) = Some j"
      and "i3 = (j @ checkMissingAwait code language) @ checkMissingReturn code language"
      by auto
    with \<open>I i2\<close> show ?thesis using ap struct by blast
  next
    case typescript
    with r3 obtain j where "applyPatterns code (js_ts_patterns M) i2 (Some language) = Some j"
      and "i3 = (j @ checkMissingAwait code language) @ checkMissingReturn code language"
      by auto
    with \<open>I i2\<close> show ?thesis using ap struct by blast
  next
    case python
    with r3 \<open>I i2\<close> show ?thesis using ap by auto
  next
    case go
    with r3 \<open>I i2\<close> show ?thesis using ap by auto
  next
    case rust
    with r3 \<open>I i2\<close> show ?thesis using ap by auto
  next
    case java
    with r3 \<open>I i2\<close> show ?thesis using ap by auto
  next
    case cpp
    with r3 \<open>I i2\<close> show ?thesis using ap by auto
  qed
  then show "I r" by (rule ap [OF r4])
qed

lemma analyzeCodeIn_subset:
  assumes "analyzeCodeIn M code language = Some r"
  obtains cands where "foundIssues M code language = Some cands"
    and "r = take MAX_ISSUES (sortBy compareIssues cands)"
  using assms unfolding analyzeCodeIn_def by (auto split: option.splits simp: Let_def)

lemma insertBy_mset: "mset (insertBy cmp x ys) = add_mset x (mset ys)"
  by (induction ys) auto

lemma sortBy_mset: "mset (sortBy cmp xs) = mset xs"
  unfolding sortBy_def by (induction xs) (auto simp: insertBy_mset)

lemma sortBy_set: "set (sortBy cmp xs) = set xs"
  using sortBy_mset [of cmp xs] by (metis set_mset_mset)

subsection \<open>The context filter\<close>

lemma lastIndexOf_none: "lastIndexOf xs c = -1 \<longleftrightarrow> c \<notin> set xs"
proof (induction xs)
  case Nil
  show ?case by simp
next
  case (Cons x xs)
  have "-1 \<le> lastIndexOf ys c" for ys
    by (induction ys) (auto simp: Let_def)
  from this [of xs] Cons show ?case
    by (auto simp: Let_def)
qed

lemma lastIndexOf_ge: "-1 \<le> lastIndexOf xs c"
  by (induction xs) (auto simp: Let_def)

lemma drop_lastIndexOf:
  "drop (nat (lastIndexOf xs c + 1)) xs = rev (takeWhile (\<lambda>x. x \<noteq> c) (rev xs))"
proof (induction xs)
  case Nil
  show ?case by simp
next
  case (Cons x xs)
  show ?case
  proof (cases "c \<in> set xs")
    case True
    then have ne: "lastIndexOf xs c \<noteq> -1"
      by (simp add: lastIndexOf_none)
    with lastIndexOf_ge [of xs c] have ge: "0 \<le> lastIndexOf xs c"
      by linarith
    have "takeWhile (\<lambda>x. x \<noteq> c) (rev xs @ [x]) = takeWhile (\<lambda>x. x \<noteq> c) (rev xs)"
      using True by (intro takeWhile_append1 [where x = c]) auto
    with Cons ne ge show ?thesis
      by (simp add: Let_def nat_add_distrib)
  next
    case False
    then have "lastIndexOf xs c = -1"
      by (simp add: lastIndexOf_none)
    moreover have "takeWhile (\<lambda>x. x \<noteq> c) (rev xs @ [x]) =
        rev xs @ takeWhile (\<lambda>x. x \<noteq> c) [x]"
      using False by (intro takeWhile_append2) auto
    ultimately show ?thesis
      by (simp add: Let_def)
  qed
qed

lemma substring_from_0: "substring s 0 b = take b s"
  by (simp add: substring_def Let_def min_def)

lemma lineContent_linePrefix:
  "substring code (nat (lastIndexOf (substring code 0 index) (CHR 0x0A) + 1)) index =
     linePrefix code index"
proof -
  define k where "k = nat (lastIndexOf (take index code) (CHR 0x0A) + 1)"
  have lt: "lastIndexOf ys c < int (length ys)" for ys c
    by (induction ys) (auto simp: Let_def)
  have "k \<le> length (take index code)"
    unfolding k_def nat_le_iff using lt [of "take index code" "CHR 0x0A"] by simp
  then have kle: "k \<le> min index (length code)"
    by (simp add: min.commute)
  from kle have k1: "k \<le> index" and k2: "k \<le> length code"
    by simp_all
  have "substring code k index = drop k (take index code)"
    using k1 k2 by (auto simp: substring_def Let_def min_def max_def drop_take)
  also have "\<dots> = linePrefix code index"
    unfolding k_def linePrefix_def by (rule drop_lastIndexOf)
  finally show ?thesis
    by (simp add: k_def substring_from_0)
qed

lemma countChar_count_list: "countChar s c = count_list s c"
  by (induction s) (auto simp: countChar_def)

lemma includes_char: "includes_str s [c] \<longleftrightarrow> c \<in> set s"
  by (induction s) auto

lemma sublist_single: "sublist [c :: char] s \<longleftrightarrow> c \<in> set s"
  using includes_char [of s c] includes_str_sublist [of s "[c]"] by simp

lemma isInside_suppressed:
  "isInsideCommentOrString code index language \<longleftrightarrow> suppressed code index language"
  unfolding isInsideCommentOrString_def suppressed_def Let_def lineContent_linePrefix
  by (cases language)
     (auto simp: includes_str_sublist sublist_single countChar_count_list
           odd_iff_mod_2_eq_one simp del: includes_str.simps)

lemma isInside_at_0: "\<not> isInsideCommentOrString code 0 language"
  by (simp add: isInside_suppressed suppressed_def linePrefix_def)

lemma found_not_suppressed:
  assumes "foundIssues M code language = Some cands" "x \<in> set cands"
  shows "\<not> isInsideCommentOrString code (startIndex x) language"
proof -
  have "\<forall>x \<in> set cands. \<not> isInsideCommentOrString code (startIndex x) language"
  proof (rule foundIssues_invariant [OF assms(1)])
    show "\<forall>x\<in>set []. \<not> isInsideCommentOrString code (startIndex x) language"
      by simp
  next
    fix p and "is" :: "Issue list" and idx m0 rep
    assume "\<forall>x\<in>set is. \<not> isInsideCommentOrString code (startIndex x) language"
      and "\<not> isInsideCommentOrString code idx language"
    then show "\<forall>x\<in>set (is @ [newIssue p code idx m0 rep]).
                 \<not> isInsideCommentOrString code (startIndex x) language"
      by (simp add: newIssue_def)
  next
    fix "is" :: "Issue list"
    assume a: "\<forall>x\<in>set is. \<not> isInsideCommentOrString code (startIndex x) language"
    have "startIndex y = 0"
      if "y \<in> set (checkMissingAwait code language) \<union> set (checkMissingReturn code language)"
      for y
      using that by (rule structural_startIndex)
    with a show "\<forall>x\<in>set ((is @ checkMissingAwait code language) @
                           checkMissingReturn code language).
                   \<not> isInsideCommentOrString code (startIndex x) language"
      by (auto simp: isInside_at_0)
  qed
  with assms(2) show ?thesis by blast
qed

text \<open>
  Claim C6. If the prefix on the line of an offset holds the line-comment marker of the
  language (\<^verbatim>\<open>//\<close>, or \<^verbatim>\<open>#\<close> for Python), or an odd number of double quotes, or an odd
  number of single quotes, then no issue of the result starts at that offset.
\<close>

theorem suppressed_occurrences_not_reported:
  assumes "analyzeCode code language = Some r"
    and "suppressed code index language"
  shows "index \<notin> startIndex ` set r"
proof
  assume "index \<in> startIndex ` set r"
  then obtain x where x: "x \<in> set r" "startIndex x = index"
    by auto
  from assms(1) obtain cands where c: "foundIssues TABLES code language = Some cands"
    and r: "r = take MAX_ISSUES (sortBy compareIssues cands)"
    unfolding analyzeCode_def by (rule analyzeCodeIn_subset)
  from x(1) r have "x \<in> set cands"
    using sortBy_set [of compareIssues cands] by (auto dest: in_set_takeD)
  from found_not_suppressed [OF c this] x(2) assms(2) show False
    by (simp add: isInside_suppressed)
qed

subsection \<open>Rule ids and deduplication\<close>












subsection \<open>Concrete runs\<close>


lemma analyze_comment_fetch:
  "analyzeCode ''// fetch(url)'' javascript = Some [missingAwaitIssue 0 ''// fetch(url)'']"
  by code_simp

lemma analyze_comment_eval:
  "analyzeCode ''//eval(\<newline>eval('' javascript =
     Some [newIssue (SECURITY_PATTERNS ! 2) ''//eval(\<newline>eval('' 8 ''eval('' ''// REMOVED: eval('']"
  by code_simp

theorem suppressed_occurrences_not_reported_witness:
  "suppressed ''//eval(\<newline>eval('' 2 javascript \<and>
   2 \<notin> startIndex ` set [newIssue (SECURITY_PATTERNS ! 2) ''//eval(\<newline>eval('' 8 ''eval(''
                            ''// REMOVED: eval('']"
proof -
  have "isInsideCommentOrString ''//eval(\<newline>eval('' 2 javascript"
    by code_simp
  then have s: "suppressed ''//eval(\<newline>eval('' 2 javascript"
    by (simp only: isInside_suppressed)
  from suppressed_occurrences_not_reported [OF analyze_comment_eval s] s
  show ?thesis by blast
qed




end
